theory Spec2Isabelle
  imports Complex_Main "HOL-Library.Sublist"
begin

section \<open>Values of the Python program\<close>

text \<open>
  A Python \<open>str\<close> is a sequence of Unicode code points and \<open>len\<close> counts code points, so a
  string is modelled as the list of its code points. ASCII text is written with \<open>ascii\<close>;
  the emoji of the bot's messages are written as their code points.
  A Python \<open>float\<close> is idealised as a real number.
\<close>

type_synonym pystr = "nat list"

abbreviation ascii :: "string \<Rightarrow> pystr" where
  "ascii \<equiv> map of_char"

text \<open>
  A menu option is either a plain label (a \<open>str\<close>) or a dict with the keys \<open>name\<close> and
  \<open>price\<close>, either of which may be absent (the code reads both with \<open>.get\<close>).
  The same type serves every place where the program stores "a string or whatever the option
  was": the context keys \<open>flavor\<close> and \<open>sauce\<close>, the cart item fields and the
  button labels.
\<close>

datatype menu_option = Label pystr | Priced "pystr option" "real option"

text \<open>Python's truth value: an empty string and an empty dict are false.\<close>

fun truthy :: "menu_option \<Rightarrow> bool" where
  "truthy (Label s) = (s \<noteq> [])"
| "truthy (Priced n p) = (n \<noteq> None \<or> p \<noteq> None)"

text \<open>A menu group dict; \<open>None\<close> is a missing key.\<close>

record menu_group =
  g_id :: "pystr option"
  g_key :: "pystr option"
  g_title :: "pystr option"
  g_options :: "menu_option list option"

record selection =
  sel_title :: pystr
  sel_value :: menu_option
  sel_key :: pystr

record cart_item =
  flavor :: menu_option
  sauce :: menu_option
  quantity :: int
  unit_price :: real
  item_total :: real

datatype delivery_id = IdInt int | IdStr pystr

record delivery =
  d_id :: "delivery_id option"
  d_location :: "pystr option"
  d_delivery_datetime :: "pystr option"
  d_datetime :: "pystr option"
  d_cutoff_time :: "pystr option"
  d_status :: "pystr option"
  d_display_label :: "pystr option"
  d_display_time :: "pystr option"

record user_info =
  ui_name :: "pystr option"
  ui_handle :: "pystr option"
  ui_phone :: "pystr option"

text \<open>
  \<open>context.user_data\<close>: a dict with string keys. Every key the handlers read or write is a
  field; \<open>None\<close> means that the key is absent, so the empty dict is the record with every
  field \<open>None\<close>.
\<close>

record user_data =
  ud_menu_groups :: "menu_group list option"
  ud_menu_pricing :: "(pystr \<times> real) list option"
  ud_menu_index :: "nat option"
  ud_menu_choices :: "(nat \<rightharpoonup> menu_option) option"
  ud_menu_selections :: "selection list option"
  ud_flavor :: "menu_option option"
  ud_sauce :: "menu_option option"
  ud_main_option_price :: "real option"
  ud_order_type :: "pystr option"
  ud_delivery :: "delivery option"
  ud_user_info :: "user_info option"
  ud_name :: "pystr option"
  ud_order_message_id :: "int option"
  ud_cart :: "cart_item list option"
  ud_total_price :: "real option"
  ud_total_quantity :: "int option"
  ud_order_id :: "pystr option"
  ud_quantity :: "int option"
  ud_unit_price :: "real option"
  ud_pickup_store_name :: "pystr option"
  ud_pickup_date_display :: "pystr option"
  ud_pickup_time_display :: "pystr option"

definition empty_user_data :: user_data where
  "empty_user_data =
     \<lparr>ud_menu_groups = None, ud_menu_pricing = None, ud_menu_index = None,
      ud_menu_choices = None, ud_menu_selections = None, ud_flavor = None, ud_sauce = None,
      ud_main_option_price = None, ud_order_type = None, ud_delivery = None,
      ud_user_info = None, ud_name = None, ud_order_message_id = None, ud_cart = None,
      ud_total_price = None, ud_total_quantity = None, ud_order_id = None,
      ud_quantity = None, ud_unit_price = None, ud_pickup_store_name = None,
      ud_pickup_date_display = None, ud_pickup_time_display = None\<rparr>"

text \<open>\<open>context.user_data.clear()\<close>\<close>

definition clear :: "user_data \<Rightarrow> user_data" where
  "clear ctx = empty_user_data"

text \<open>\<open>d.get(key, default)\<close>\<close>

definition get_or :: "'a option \<Rightarrow> 'a \<Rightarrow> 'a" where
  "get_or v d = (case v of None \<Rightarrow> d | Some x \<Rightarrow> x)"

section \<open>Cart accumulator (handlers/order\_flow.py)\<close>

text \<open>
  Python's \<open>sum\<close>: a left fold of \<open>+\<close> starting from 0. The definition asks nothing of
  \<open>+\<close>, and what is proved about it below uses no law of arithmetic.
\<close>

definition py_sum :: "'a::{plus,zero} list \<Rightarrow> 'a" where
  "py_sum xs = foldl (+) 0 xs"

text \<open>
  \<open>add_item_to_cart\<close>, with \<open>fl\<close>, \<open>sa\<close>, \<open>q\<close> and \<open>p\<close> for its arguments \<open>flavor\<close>,
  \<open>sauce\<close>, \<open>quantity\<close> and \<open>unit_price\<close>:
  \<^verbatim>\<open>
  if 'cart' not in context.user_data:
      context.user_data['cart'] = []
  item = {'flavor': flavor, 'sauce': sauce, 'quantity': quantity,
          'unit_price': unit_price, 'item_total': quantity * unit_price}
  context.user_data['cart'].append(item)
  total_price = sum(item['item_total'] for item in context.user_data['cart'])
  total_quantity = sum(item['quantity'] for item in context.user_data['cart'])
  context.user_data['total_price'] = total_price
  context.user_data['total_quantity'] = total_quantity
  \<close>
\<close>

definition add_item_to_cart ::
  "user_data \<Rightarrow> menu_option \<Rightarrow> menu_option \<Rightarrow> int \<Rightarrow> real \<Rightarrow> user_data" where
  "add_item_to_cart ctx fl sa q p =
     (let ctx1 = (if ud_cart ctx = None then ctx\<lparr>ud_cart := Some []\<rparr> else ctx);
          item = \<lparr>flavor = fl, sauce = sa, quantity = q, unit_price = p,
                  item_total = of_int q * p\<rparr>;
          cart = the (ud_cart ctx1) @ [item];
          ctx2 = ctx1\<lparr>ud_cart := Some cart\<rparr>;
          total_price = py_sum (map item_total cart);
          total_quantity = py_sum (map quantity cart)
      in ctx2\<lparr>ud_total_price := Some total_price, ud_total_quantity := Some total_quantity\<rparr>)"

text \<open>
  The totals as a later handler reads them (\<open>user_data.get('total_price', 0)\<close>), and the
  cart as it reads it (\<open>user_data.get('cart', [])\<close>).
\<close>

definition cart_of :: "user_data \<Rightarrow> cart_item list" where
  "cart_of ctx = get_or (ud_cart ctx) []"

definition total_price_of :: "user_data \<Rightarrow> real" where
  "total_price_of ctx = get_or (ud_total_price ctx) 0"

definition total_quantity_of :: "user_data \<Rightarrow> int" where
  "total_quantity_of ctx = get_or (ud_total_quantity ctx) 0"

text \<open>The stored totals are the sums over the cart.\<close>

definition totals_consistent :: "user_data \<Rightarrow> bool" where
  "totals_consistent ctx \<longleftrightarrow>
     total_price_of ctx = py_sum (map item_total (cart_of ctx)) \<and>
     total_quantity_of ctx = py_sum (map quantity (cart_of ctx))"

section \<open>Strings, numbers and Python built-ins the handlers use\<close>

datatype py_error = ValueError | KeyError | TypeError | BackendError

text \<open>\<open>str(n)\<close> of a non-negative integer, as an f-string interpolates it.\<close>

fun py_str_nat :: "nat \<Rightarrow> pystr" where
  "py_str_nat n = (if n < 10 then [48 + n] else py_str_nat (n div 10) @ [48 + n mod 10])"

declare py_str_nat.simps [simp del]

text \<open>\<open>sep.join(xs)\<close>\<close>

fun py_join :: "pystr \<Rightarrow> pystr list \<Rightarrow> pystr" where
  "py_join sep [] = []"
| "py_join sep [x] = x"
| "py_join sep (x # y # ys) = x @ sep @ py_join sep (y # ys)"

text \<open>\<open>enumerate(xs, start)\<close>\<close>

fun py_enumerate :: "nat \<Rightarrow> 'a list \<Rightarrow> (nat \<times> 'a) list" where
  "py_enumerate i [] = []"
| "py_enumerate i (x # xs) = (i, x) # py_enumerate (Suc i) xs"

text \<open>\<open>a or b\<close> on a string read with \<open>.get\<close>: a missing key and the empty string are false.\<close>

definition str_or :: "pystr option \<Rightarrow> pystr \<Rightarrow> pystr" where
  "str_or v d = (case v of None \<Rightarrow> d | Some s \<Rightarrow> if s = [] then d else s)"

section \<open>Menu provider (menu.py)\<close>

text \<open>The dict returned by \<open>get_menu_data\<close>; it has the single key \<open>groups\<close>.\<close>

record menu_data =
  md_groups :: "menu_group list option"
  md_pricing :: "(pystr \<times> real) list option"
  md_menu_groups :: "menu_group list option"

text \<open>The groups used when \<open>get_db()\<close> or \<open>db.get_menu_groups()\<close> raises.\<close>

definition fallback_groups :: "menu_group list" where
  "fallback_groups =
     [\<lparr>g_id = Some (ascii ''flavor''), g_key = Some (ascii ''flavor''),
       g_title = Some (ascii ''Menu Flavors''),
       g_options = Some [Priced (Some (ascii ''Classic Acai'')) (Some 8.0),
                         Priced (Some (ascii ''Protein Acai'')) (Some 9.0),
                         Priced (Some (ascii ''Vegan Acai'')) (Some 8.5)]\<rparr>,
      \<lparr>g_id = Some (ascii ''sauce''), g_key = Some (ascii ''sauce''),
       g_title = Some (ascii ''Sauce Options''),
       g_options = Some [Label (ascii ''Honey''), Label (ascii ''Peanut Butter''),
                         Label (ascii ''Nutella''), Label (ascii ''No Sauce'')]\<rparr>]"

text \<open>The substitute when every group was dropped.\<close>

definition default_groups :: "menu_group list" where
  "default_groups =
     [\<lparr>g_id = Some (ascii ''flavor''), g_key = Some (ascii ''flavor''),
       g_title = Some (ascii ''Menu Flavors''),
       g_options = Some [Priced (Some (ascii ''Classic Acai'')) (Some 8.0)]\<rparr>]"

text \<open>
  The sanitising loop of \<open>get_menu_data\<close>:
  \<^verbatim>\<open>
  for index, group in enumerate(groups):
      options = group.get("options") or []
      if not options:
          continue
      sanitized_groups.append({
          "id": group.get("id") or f"group_{index}",
          "key": group.get("key") or group.get("id") or f"group_{index}",
          "title": group.get("title") or f"Option Group {index + 1}",
          "options": options})
  \<close>
\<close>

fun sanitize_groups :: "nat \<Rightarrow> menu_group list \<Rightarrow> menu_group list" where
  "sanitize_groups index [] = []"
| "sanitize_groups index (grp # groups) =
     (let options = get_or (g_options grp) []
      in if options = [] then sanitize_groups (Suc index) groups
         else \<lparr>g_id = Some (str_or (g_id grp) (ascii ''group_'' @ py_str_nat index)),
               g_key = Some (str_or (g_key grp)
                               (str_or (g_id grp) (ascii ''group_'' @ py_str_nat index))),
               g_title = Some (str_or (g_title grp)
                                 (ascii ''Option Group '' @ py_str_nat (index + 1))),
               g_options = Some options\<rparr>
              # sanitize_groups (Suc index) groups)"

text \<open>
  \<open>get_menu_data\<close>. The argument is the outcome of \<open>get_db().get_menu_groups()\<close>: an
  exception or the stored list of group dicts. \<open>force_refresh\<close> is not read by the body.
\<close>

definition get_menu_data :: "py_error + menu_group list \<Rightarrow> menu_data" where
  "get_menu_data backend =
     (let groups = (case backend of Inl exc \<Rightarrow> fallback_groups | Inr gs \<Rightarrow> gs);
          sanitized_groups = sanitize_groups 0 groups;
          sanitized_groups = (if sanitized_groups = [] then default_groups else sanitized_groups)
      in \<lparr>md_groups = Some sanitized_groups, md_pricing = None, md_menu_groups = None\<rparr>)"

section \<open>Menu selection helpers (handlers/menu\_helpers.py)\<close>

record button =
  b_text :: menu_option
  b_callback_data :: pystr

datatype reply_markup =
    NoMarkup
  | InlineKeyboardMarkup "button list list"
  | ReplyKeyboardMarkup "pystr list list"

text \<open>The fields passed to \<open>db.create_delivery_order\<close> (payment\_handler.py).\<close>

record order_data =
  o_order_id :: pystr
  o_user_id :: int
  o_delivery_session_id :: "int option"
  o_customer_name :: pystr
  o_customer_phone :: pystr
  o_customer_handle :: pystr
  o_items :: "cart_item list option"
  o_total_quantity :: "int option"
  o_total_price :: real
  o_payment_screenshot_url :: pystr
  o_payment_status :: pystr
  o_order_status :: pystr
  o_flavor :: menu_option
  o_sauce :: menu_option
  o_quantity :: int

text \<open>
  What a handler sends to the messaging transport, in order, and the order record it hands
  to the datastore.
\<close>

datatype action =
    Answer
  | AnswerAlert pystr
  | EditMessageText pystr reply_markup
  | ReplyText pystr reply_markup
  | ReplyPhoto pystr
  | SendMessage pystr
  | CreateDeliveryOrder order_data

definition cache_menu_data ::
  "py_error + menu_group list \<Rightarrow> user_data \<Rightarrow> menu_data \<times> user_data" where
  "cache_menu_data backend ctx =
     (let menu = get_menu_data backend
      in (menu, ctx\<lparr>ud_menu_groups := Some (get_or (md_groups menu) []),
                    ud_menu_pricing := Some (get_or (md_pricing menu) [])\<rparr>))"

text \<open>
  \<^verbatim>\<open>
  groups = context.user_data.get('menu_groups')
  if not groups:
      groups = cache_menu_data(context).get('menu_groups', [])
      context.user_data['menu_groups'] = groups
  return groups
  \<close>
\<close>

definition get_menu_groups ::
  "py_error + menu_group list \<Rightarrow> user_data \<Rightarrow> menu_group list \<times> user_data" where
  "get_menu_groups backend ctx =
     (case ud_menu_groups ctx of
        Some (g # gs) \<Rightarrow> (g # gs, ctx)
      | _ \<Rightarrow>
          (let (menu, ctx1) = cache_menu_data backend ctx;
               groups = get_or (md_menu_groups menu) []
           in (groups, ctx1\<lparr>ud_menu_groups := Some groups\<rparr>)))"


definition cancel_button :: button where
  "cancel_button = \<lparr>b_text = Label ([10060] @ ascii '' Cancel''), b_callback_data = ascii ''cancel''\<rparr>"

text \<open>
  \<^verbatim>\<open>
  for option_index, option in enumerate(group.get('options', [])):
      keyboard.append([InlineKeyboardButton(option, callback_data=f"menu_{index}_{option_index}")])
  keyboard.append([InlineKeyboardButton("X Cancel", callback_data="cancel")])
  \<close>
\<close>

definition build_menu_keyboard :: "menu_group \<Rightarrow> nat \<Rightarrow> button list list" where
  "build_menu_keyboard grp index =
     map (\<lambda>(option_index, option).
            [\<lparr>b_text = option,
              b_callback_data = ascii ''menu_'' @ py_str_nat index @ ascii ''_''
                                @ py_str_nat option_index\<rparr>])
         (py_enumerate 0 (get_or (g_options grp) []))
     @ [[cancel_button]]"

text \<open>
  The loop of \<open>accumulate_menu_selections\<close>:
  \<^verbatim>\<open>
  for idx, group in enumerate(groups):
      value = choices.get(idx)
      if value:
          selections.append({
              "title": group.get('title', f"Option {idx + 1}"),
              "value": value,
              "key": group.get('key') or group.get('id') or f"option_{idx}"})
  \<close>
\<close>

fun collect_selections ::
  "nat \<Rightarrow> menu_group list \<Rightarrow> (nat \<rightharpoonup> menu_option) \<Rightarrow> selection list" where
  "collect_selections idx [] choices = []"
| "collect_selections idx (grp # groups) choices =
     (case choices idx of
        None \<Rightarrow> collect_selections (Suc idx) groups choices
      | Some v \<Rightarrow>
          if truthy v
          then \<lparr>sel_title = get_or (g_title grp) (ascii ''Option '' @ py_str_nat (idx + 1)),
                sel_value = v,
                sel_key = str_or (g_key grp)
                            (str_or (g_id grp) (ascii ''option_'' @ py_str_nat idx))\<rparr>
               # collect_selections (Suc idx) groups choices
          else collect_selections (Suc idx) groups choices)"

text \<open>
  An f-string interpolates a value with \<open>str\<close>: a label is itself; how Python prints a dict
  (with float prices) is not modelled and is the parameter \<open>str_dict\<close>.
\<close>

definition py_format :: "(menu_option \<Rightarrow> pystr) \<Rightarrow> menu_option \<Rightarrow> pystr" where
  "py_format str_dict v = (case v of Label s \<Rightarrow> s | Priced n p \<Rightarrow> str_dict v)"

text \<open>
  \<^verbatim>\<open>
  context.user_data['menu_selections'] = selections
  if selections:
      context.user_data['flavor'] = selections[0]['value']
      extras = [f"{sel['title']}: {sel['value']}" for sel in selections[1:]]
      context.user_data['sauce'] = "; ".join(extras) if extras else selections[0]['value']
  else:
      context.user_data['flavor'] = "Classic Acai"
      context.user_data['sauce'] = ""
  \<close>
\<close>

definition accumulate_menu_selections ::
  "(menu_option \<Rightarrow> pystr) \<Rightarrow> py_error + menu_group list \<Rightarrow> user_data \<Rightarrow> user_data" where
  "accumulate_menu_selections str_dict backend ctx =
     (let (groups, ctx1) = get_menu_groups backend ctx;
          choices = get_or (ud_menu_choices ctx1) Map.empty;
          selections = collect_selections 0 groups choices;
          ctx2 = ctx1\<lparr>ud_menu_selections := Some selections\<rparr>
      in case selections of
           first # rest \<Rightarrow>
             (let extras = map (\<lambda>sel. sel_title sel @ ascii '': ''
                                       @ py_format str_dict (sel_value sel)) rest
              in ctx2\<lparr>ud_flavor := Some (sel_value first),
                      ud_sauce := Some (if extras \<noteq> [] then Label (py_join (ascii ''; '') extras)
                                        else sel_value first)\<rparr>)
         | [] \<Rightarrow> ctx2\<lparr>ud_flavor := Some (Label (ascii ''Classic Acai'')),
                      ud_sauce := Some (Label [])\<rparr>)"








text \<open>\<open>s.strip()\<close>: the white space of Python's \<open>str.isspace\<close>.\<close>

definition is_space :: "nat \<Rightarrow> bool" where
  "is_space c \<longleftrightarrow>
     (9 \<le> c \<and> c \<le> 13) \<or> (28 \<le> c \<and> c \<le> 32) \<or> c = 133 \<or> c = 160 \<or> c = 5760 \<or>
     (8192 \<le> c \<and> c \<le> 8202) \<or> c = 8232 \<or> c = 8233 \<or> c = 8239 \<or> c = 8287 \<or> c = 12288"

definition py_strip :: "pystr \<Rightarrow> pystr" where
  "py_strip s = rev (dropWhile is_space (rev (dropWhile is_space s)))"



text \<open>\<open>str(n)\<close> of an integer.\<close>

definition py_str_int :: "int \<Rightarrow> pystr" where
  "py_str_int n = (if n < 0 then 45 # py_str_nat (nat (- n)) else py_str_nat (nat n))"

text \<open>\<open>s.replace(pat, "")\<close> for a non-empty \<open>pat\<close>: every occurrence, left to right.\<close>

function py_remove :: "pystr \<Rightarrow> pystr \<Rightarrow> pystr" where
  "py_remove pat [] = []"
| "py_remove pat (c # cs) =
     (if pat \<noteq> [] \<and> prefix pat (c # cs) then py_remove pat (drop (length pat) (c # cs))
      else c # py_remove pat cs)"
  by pat_completeness auto
termination
  by (relation "measure (\<lambda>(pat, s). length s)") auto





section \<open>Clock (utils.py)\<close>

record datetime =
  dt_year :: nat
  dt_month :: nat
  dt_day :: nat
  dt_hour :: nat
  dt_minute :: nat
  dt_second :: nat
  dt_microsecond :: nat

text \<open>The order of two clock readings: compared field by field, the year first.\<close>

definition dt_key :: "datetime \<Rightarrow> nat" where
  "dt_key t =
     (((((dt_year t * 13 + dt_month t) * 32 + dt_day t) * 24 + dt_hour t) * 60 + dt_minute t) * 60
        + dt_second t) * 1000000 + dt_microsecond t"

definition zfill :: "nat \<Rightarrow> pystr \<Rightarrow> pystr" where
  "zfill w s = replicate (w - length s) 48 @ s"

text \<open>
  \<open>generate_delivery_id\<close>: \<open>datetime.now().strftime('%Y%m%d%H%M%S')\<close>, with the clock
  reading as argument.
\<close>

definition generate_delivery_id :: "datetime \<Rightarrow> pystr" where
  "generate_delivery_id now =
     zfill 4 (py_str_nat (dt_year now)) @ zfill 2 (py_str_nat (dt_month now))
     @ zfill 2 (py_str_nat (dt_day now)) @ zfill 2 (py_str_nat (dt_hour now))
     @ zfill 2 (py_str_nat (dt_minute now)) @ zfill 2 (py_str_nat (dt_second now))"

section \<open>Button texts (constants.py, keyboards.py) and message texts\<close>

definition ORDER_BUTTON_TEXT :: pystr where
  "ORDER_BUTTON_TEXT =
     [127847] @ ascii '' Order Now''"

definition HELP_BUTTON_TEXT :: pystr where
  "HELP_BUTTON_TEXT =
     [10067] @ ascii '' Help''"

definition START_OVER_BUTTON_TEXT :: pystr where
  "START_OVER_BUTTON_TEXT =
     [128260] @ ascii '' Start Over''"

definition SHOW_MENU_BUTTON_TEXT :: pystr where
  "SHOW_MENU_BUTTON_TEXT =
     [128203] @ ascii '' Show Menu''"

definition SHOW_DELIVERIES_BUTTON_TEXT :: pystr where
  "SHOW_DELIVERIES_BUTTON_TEXT =
     [128666] @ ascii '' Show Deliveries''"

definition RESTART_ORDER_BUTTON_TEXT :: pystr where
  "RESTART_ORDER_BUTTON_TEXT =
     [128260] @ ascii '' Restart Order''"

definition CANCEL_ORDER_BUTTON_TEXT :: pystr where
  "CANCEL_ORDER_BUTTON_TEXT =
     [10060] @ ascii '' Cancel Order''"

definition get_main_keyboard :: reply_markup where
  "get_main_keyboard =
     ReplyKeyboardMarkup [[ORDER_BUTTON_TEXT, SHOW_MENU_BUTTON_TEXT],
                          [SHOW_DELIVERIES_BUTTON_TEXT, HELP_BUTTON_TEXT],
                          [START_OVER_BUTTON_TEXT]]"

definition get_order_keyboard :: reply_markup where
  "get_order_keyboard =
     ReplyKeyboardMarkup [[RESTART_ORDER_BUTTON_TEXT, CANCEL_ORDER_BUTTON_TEXT]]"

definition order_cancelled_text :: pystr where
  "order_cancelled_text =
     [10060] @ ascii '' Order cancelled. Use /order to start again.''"

definition order_restarted_text :: pystr where
  "order_restarted_text =
     [128260] @ ascii '' Order restarted. Tap **Order Now** to begin again!''"

definition order_cancelled_command_text :: pystr where
  "order_cancelled_command_text =
     [10060] @ ascii '' Order cancelled. Tap **Order Now** whenever you'' @ [39] @ ascii ''re ready to try again!''"

definition payment_cancelled_text :: pystr where
  "payment_cancelled_text =
     [10060] @ ascii '' Payment cancelled. Your order was not submitted.'' @ [10] @ ascii ''Use the buttons below to start over!''"

definition no_active_sessions_text :: pystr where
  "no_active_sessions_text =
     [9888, 65039] @ ascii '' Sorry, there are no active delivery sessions at the moment.'' @ [10] @ ascii ''Please check back later or contact the admin team.''"

definition select_delivery_text :: pystr where
  "select_delivery_text =
     [128666] @ ascii '' **Select Delivery Session:**'' @ [10, 10] @ ascii ''Choose when you'' @ [39] @ ascii ''d like your order delivered:''"

definition need_restart_text :: pystr where
  "need_restart_text =
     ascii ''Need to restart or cancel? Use the buttons below anytime.''"







definition upload_photo_text :: pystr where
  "upload_photo_text =
     [9888, 65039] @ ascii '' Please upload your payment screenshot as a photo so we can verify it.'' @ [10] @ ascii ''You can also use /cancel to abort this order.''"





definition upload_now_text :: pystr where
  "upload_now_text =
     [128248] @ ascii '' Please upload your payment screenshot now, or use /cancel to abort.''"

section \<open>Order conversation (handlers/order\_flow.py)\<close>

text \<open>
  The conversation states are the integers of
  \<open>SELECT_DELIVERY, ..., PAYMENT = range(8)\<close>; \<open>END\<close> is \<open>ConversationHandler.END\<close>.
\<close>

definition SELECT_DELIVERY :: int where "SELECT_DELIVERY = 0"
definition PAYMENT :: int where "PAYMENT = 7"
definition END :: int where "END = - 1"

text \<open>
  A handler either returns the next state or raises; in both cases the context holds what
  the handler wrote so far, and the transport has received the listed actions.
\<close>

datatype handler_result = Return int | Raise py_error

type_synonym outcome = "handler_result \<times> user_data \<times> action list"

text \<open>
  What the external collaborators answer while one event is handled: the datastore, the
  JSON fallback files, the clock, the transport, and the library functions that are not
  modelled (printing a dict, formatting a float with two decimals, parsing and formatting
  dates).
  \<^item> \<open>menu_backend\<close>: \<open>get_db().get_menu_groups()\<close>, \<open>Inl\<close> when it raises;
  \<^item> \<open>str_dict\<close>, \<open>format_2f\<close>: \<open>str\<close> of a dict and the format \<open>:.2f\<close>;
  \<^item> \<open>now\<close>: \<open>datetime.now()\<close>;
  \<^item> \<open>open_sessions_db\<close>: \<open>get_db().get_delivery_sessions(status='open')\<close>, \<open>Inl\<close> when
    \<open>get_db()\<close> raises;
  \<^item> \<open>fromisoformat\<close>, \<open>parse_datetime\<close>: \<open>datetime.fromisoformat\<close> and
    \<open>utils.parse_datetime\<close>, \<open>None\<close> when the string does not parse;
  \<^item> \<open>deliveries_json\<close>, \<open>user_json\<close>: \<open>data/deliveries.json\<close> and this user's entry of
    \<open>data/users.json\<close>;
  \<^item> \<open>format_datetime_label\<close>: \<open>_format_datetime_label\<close>;
  \<^item> \<open>delivery_by_id_db\<close>, \<open>user_db\<close>: \<open>get_db().get_delivery_by_id(id)\<close> and
    \<open>get_db().get_user(id)\<close>, \<open>Inl\<close> when \<open>get_db()\<close> raises;
  \<^item> \<open>username\<close>: \<open>update.effective_user.username\<close>;
  \<^item> \<open>prompt_message_id\<close>: the id of the message the transport sent;
  \<^item> \<open>qr_exists\<close>: whether \<open>data/qr.png\<close> exists.
\<close>

record env =
  menu_backend :: "py_error + menu_group list"
  str_dict :: "menu_option \<Rightarrow> pystr"
  format_2f :: "real \<Rightarrow> pystr"
  now :: datetime
  open_sessions_db :: "py_error + delivery list"
  fromisoformat :: "pystr \<Rightarrow> datetime option"
  deliveries_json :: "delivery list"
  parse_datetime :: "pystr \<Rightarrow> datetime option"
  format_datetime_label :: "pystr option \<Rightarrow> pystr"
  delivery_by_id_db :: "pystr \<Rightarrow> py_error + delivery option"
  user_db :: "py_error + user_info option"
  user_json :: "user_info option"
  username :: "pystr option"
  prompt_message_id :: int
  qr_exists :: bool

text \<open>\<open>a or b\<close> on two optional strings.\<close>

definition opt_or :: "pystr option \<Rightarrow> pystr option \<Rightarrow> pystr option" where
  "opt_or a b = (case a of None \<Rightarrow> b | Some s \<Rightarrow> if s = [] then b else Some s)"

text \<open>
  \<open>SupabaseDB.get_active_deliveries\<close> (database/supabase\_client.py) on the sessions with
  status \<open>open\<close>: a session stays unless its cutoff parses and has passed.
\<close>

definition get_active_deliveries :: "env \<Rightarrow> delivery list \<Rightarrow> delivery list" where
  "get_active_deliveries e sessions =
     filter (\<lambda>session.
               case d_cutoff_time session of
                 None \<Rightarrow> True
               | Some cutoff_time \<Rightarrow>
                   if cutoff_time = [] then True
                   else (case fromisoformat e (py_remove (ascii ''Z'')
                                                 (py_remove (ascii ''+00:00'') cutoff_time)) of
                           None \<Rightarrow> True
                         | Some cutoff_dt \<Rightarrow> dt_key (now e) < dt_key cutoff_dt))
            sessions"

text \<open>\<open>utils.is_delivery_active\<close>; \<open>parse_datetime(None)\<close> raises \<open>TypeError\<close>.\<close>

definition is_delivery_active :: "env \<Rightarrow> pystr option \<Rightarrow> py_error + bool" where
  "is_delivery_active e cutoff_time =
     (case cutoff_time of
        None \<Rightarrow> Inl TypeError
      | Some c \<Rightarrow>
          (case parse_datetime e c of
             None \<Rightarrow> Inr False
           | Some cutoff_dt \<Rightarrow> Inr (dt_key (now e) < dt_key cutoff_dt)))"

text \<open>
  The JSON fallback of \<open>_load_active_delivery_sessions\<close>:
  \<open>[d for d in deliveries if d.get('status') == 'open' and is_delivery_active(d.get('cutoff_time'))]\<close>
\<close>

fun fallback_deliveries :: "env \<Rightarrow> delivery list \<Rightarrow> py_error + delivery list" where
  "fallback_deliveries e [] = Inr []"
| "fallback_deliveries e (d # ds) =
     (if d_status d = Some (ascii ''open'')
      then (case is_delivery_active e (d_cutoff_time d) of
              Inl exc \<Rightarrow> Inl exc
            | Inr active \<Rightarrow>
                (case fallback_deliveries e ds of
                   Inl exc \<Rightarrow> Inl exc
                 | Inr rest \<Rightarrow> Inr (if active then d # rest else rest)))
      else fallback_deliveries e ds)"

definition load_active_delivery_sessions :: "env \<Rightarrow> py_error + delivery list" where
  "load_active_delivery_sessions e =
     (case open_sessions_db e of
        Inr sessions \<Rightarrow> Inr (get_active_deliveries e sessions)
      | Inl exc \<Rightarrow> fallback_deliveries e (deliveries_json e))"

definition cancel_payment :: "user_data \<Rightarrow> outcome" where
  "cancel_payment ctx =
     (Return END, clear ctx, [ReplyText payment_cancelled_text get_main_keyboard])"

text \<open>
  \<^verbatim>\<open>
  if context.user_data.get('order_id'):
      return await cancel_payment(update, context)
  context.user_data.clear()
  await update.message.reply_text("X Order cancelled. Tap **Order Now** ...", ...)
  return ConversationHandler.END
  \<close>
\<close>

definition cancel_order :: "user_data \<Rightarrow> outcome" where
  "cancel_order ctx =
     (if str_or (ud_order_id ctx) [] \<noteq> [] then cancel_payment ctx
      else (Return END, clear ctx, [ReplyText order_cancelled_command_text get_main_keyboard]))"

text \<open>\<open>_maybe_handle_control_text\<close>; \<open>None\<close> is the Python \<open>None\<close> it returns otherwise.\<close>

definition maybe_handle_control_text :: "user_data \<Rightarrow> pystr \<Rightarrow> outcome option" where
  "maybe_handle_control_text ctx text =
     (if text = CANCEL_ORDER_BUTTON_TEXT then Some (cancel_order ctx)
      else if text = RESTART_ORDER_BUTTON_TEXT
      then Some (Return END, clear ctx, [ReplyText order_restarted_text get_main_keyboard])
      else None)"

definition str_delivery_id :: "delivery_id \<Rightarrow> pystr" where
  "str_delivery_id i = (case i of IdInt n \<Rightarrow> py_str_int n | IdStr s \<Rightarrow> s)"

text \<open>
  The keyboard loop of \<open>start_order\<close>; \<open>delivery['id']\<close> raises \<open>KeyError\<close> on a session
  without id.
\<close>

fun delivery_keyboard :: "env \<Rightarrow> delivery list \<Rightarrow> py_error + button list list" where
  "delivery_keyboard e [] = Inr []"
| "delivery_keyboard e (d # ds) =
     (let delivery_time = opt_or (d_delivery_datetime d) (d_datetime d);
          label = format_datetime_label e delivery_time;
          location = get_or (d_location d) (ascii ''Unknown Location'');
          button_text = location @ (ascii '' '' @ [8226] @ ascii '' '') @ label
      in case d_id d of
           None \<Rightarrow> Inl KeyError
         | Some i \<Rightarrow>
             (case delivery_keyboard e ds of
                Inl exc \<Rightarrow> Inl exc
              | Inr rows \<Rightarrow>
                  Inr ([\<lparr>b_text = Label button_text,
                          b_callback_data = ascii ''delivery_'' @ str_delivery_id i\<rparr>] # rows)))"

text \<open>
  \<open>start_order\<close>: the context is cleared, the menu is cached and the order type is set
  before the delivery sessions are loaded.
\<close>

definition start_order :: "env \<Rightarrow> user_data \<Rightarrow> outcome" where
  "start_order e ctx =
     (let ctx1 = clear ctx;
          ctx2 = snd (cache_menu_data (menu_backend e) ctx1);
          ctx3 = ctx2\<lparr>ud_order_type := Some (ascii ''delivery'')\<rparr>
      in case load_active_delivery_sessions e of
           Inl exc \<Rightarrow> (Raise exc, ctx3, [])
         | Inr active_deliveries \<Rightarrow>
             if active_deliveries = []
             then (Return END, ctx3, [ReplyText no_active_sessions_text get_main_keyboard])
             else (case delivery_keyboard e active_deliveries of
                     Inl exc \<Rightarrow> (Raise exc, ctx3, [])
                   | Inr rows \<Rightarrow>
                       (Return SELECT_DELIVERY,
                        ctx3\<lparr>ud_order_message_id := Some (prompt_message_id e)\<rparr>,
                        [ReplyText select_delivery_text
                           (InlineKeyboardMarkup (rows @ [[cancel_button]])),
                         ReplyText need_restart_text get_order_keyboard])))"

















section \<open>Payment intake (handlers/payment\_handler.py)\<close>


text \<open>
  \<open>send_payment_qr\<close>, called from a callback query: the payment request (with the QR image
  when the file exists) and the prompt for the screenshot.
\<close>

definition send_payment_qr :: "env \<Rightarrow> user_data \<Rightarrow> action list" where
  "send_payment_qr e ctx =
     (let total = get_or (ud_total_price ctx) 0;
          total_quantity = get_or (ud_total_quantity ctx) 1;
          message = ([128179] @ ascii '' **Payment Required**'' @ [10, 10] @ ascii ''Total Items: '') @ py_str_int total_quantity @ ([10] @ ascii ''Total Amount: **$'') @ format_2f e total @ (ascii ''**'' @ [10, 10] @ ascii ''Please:'' @ [10] @ ascii ''1'' @ [65039, 8419] @ ascii '' Scan the QR code below to make payment'' @ [10] @ ascii ''2'' @ [65039, 8419] @ ascii '' Take a screenshot of your payment confirmation'' @ [10] @ ascii ''3'' @ [65039, 8419] @ ascii '' Upload the screenshot here'' @ [10, 10, 9888, 65039] @ ascii '' Your order will be confirmed once payment is received.'')
      in [if qr_exists e then ReplyPhoto message
          else ReplyText (message @ ([10, 10, 9888, 65039] @ ascii '' QR code image not configured. Please contact admin for payment details.'')) NoMarkup,
          SendMessage upload_now_text])"

text \<open>
  \<open>confirm_order\<close>: every callback data other than \<open>cancel\<close> confirms.
  \<^verbatim>\<open>
  order_id = generate_delivery_id()
  context.user_data['order_id'] = order_id
  \<close>
\<close>

definition confirm_order :: "env \<Rightarrow> user_data \<Rightarrow> pystr \<Rightarrow> outcome" where
  "confirm_order e ctx data =
     (if data = ascii ''cancel''
      then (Return END, ctx, [Answer, EditMessageText order_cancelled_text NoMarkup])
      else
        (let order_id = generate_delivery_id (now e);
             ctx1 = ctx\<lparr>ud_order_id := Some order_id\<rparr>
         in (Return PAYMENT, ctx1,
             [Answer, EditMessageText (([9989] @ ascii '' **Order Confirmed!**'' @ [10, 10] @ ascii ''Order ID: '' @ [96]) @ order_id @ ([96, 10, 10] @ ascii ''Proceeding to payment...'')) NoMarkup]
             @ send_payment_qr e ctx1)))"

definition request_payment_screenshot :: "user_data \<Rightarrow> pystr option \<Rightarrow> outcome" where
  "request_payment_screenshot ctx message_text =
     (let text = py_strip (get_or message_text [])
      in case (if text \<noteq> [] then maybe_handle_control_text ctx text else None) of
           Some maybe_result \<Rightarrow> maybe_result
         | None \<Rightarrow> (Return PAYMENT, ctx, [ReplyText upload_photo_text NoMarkup]))"

section \<open>A concrete environment\<close>

text \<open>
  The menu of the spec's scenario, a datastore without delivery sessions and without a
  profile for the user, and a clock reading; used to run the handlers on concrete events.
\<close>

definition scenario_menu :: "menu_group list" where
  "scenario_menu =
     [\<lparr>g_id = Some (ascii ''flavor''), g_key = None, g_title = Some (ascii ''Flavor''),
       g_options = Some [Priced (Some (ascii ''Classic'')) (Some 8.0),
                         Priced (Some (ascii ''Protein'')) (Some 9.0)]\<rparr>,
      \<lparr>g_id = Some (ascii ''sauce''), g_key = None, g_title = Some (ascii ''Sauce''),
       g_options = Some [Label (ascii ''Honey''), Label (ascii ''None'')]\<rparr>]"

definition scenario_env :: env where
  "scenario_env =
     \<lparr>menu_backend = Inr scenario_menu,
      str_dict = (\<lambda>v. ascii ''{}''),
      format_2f = (\<lambda>r. ascii ''0.00''),
      now = \<lparr>dt_year = 2025, dt_month = 1, dt_day = 1, dt_hour = 12, dt_minute = 0,
             dt_second = 0, dt_microsecond = 100000\<rparr>,
      open_sessions_db = Inr [],
      fromisoformat = (\<lambda>s. None),
      deliveries_json = [],
      parse_datetime = (\<lambda>s. None),
      format_datetime_label = (\<lambda>s. get_or s (ascii ''Unknown'')),
      delivery_by_id_db = (\<lambda>i. Inr None),
      user_db = Inr None,
      user_json = None,
      username = None,
      prompt_message_id = 1,
      qr_exists = False\<rparr>"

section \<open>Stored default menu (database/supabase\_client.py)\<close>


section \<open>Menu traversal\<close>




section \<open>Payment intake: the screenshot (handlers/payment\_handler.py)\<close>

text \<open>
  What the collaborators answer while a message is handled in the payment stage.
  \<open>upload\<close> is the outcome of the first \<open>try\<close> block up to the upload (an exception, or the
  URL returned by \<open>upload_payment_receipt\<close>, \<open>None\<close> when it failed); \<open>db_ok\<close> tells
  whether \<open>get_db()\<close> succeeds in the second \<open>try\<close> block; \<open>create_delivery_order\<close> and
  \<open>log_pickup_order\<close> are the returned success flags (both functions catch their own
  exceptions and return \<open>False\<close>).
\<close>

record pay_env =
  has_photo :: bool
  pe_message_text :: "pystr option"
  get_file_ok :: bool
  upload :: "py_error + pystr option"
  move_ok :: bool
  fallback_download_ok :: bool
  db_ok :: bool
  create_delivery_order :: bool
  log_pickup_order :: bool
  effective_user_id :: int











section \<open>Properties of the cart accumulator\<close>



lemma total_price_add_item:
  "total_price_of (add_item_to_cart ctx fl sa q p) =
     py_sum (map item_total (cart_of (add_item_to_cart ctx fl sa q p)))"
  by (cases "ud_cart ctx")
     (simp_all add: add_item_to_cart_def cart_of_def total_price_of_def get_or_def Let_def)

lemma total_quantity_add_item:
  "total_quantity_of (add_item_to_cart ctx fl sa q p) =
     py_sum (map quantity (cart_of (add_item_to_cart ctx fl sa q p)))"
  by (cases "ud_cart ctx")
     (simp_all add: add_item_to_cart_def cart_of_def total_quantity_of_def get_or_def Let_def)


lemma totals_consistent_add_item: "totals_consistent (add_item_to_cart ctx fl sa q p)"
  unfolding totals_consistent_def
  using total_price_add_item total_quantity_add_item by simp



section \<open>Properties of the menu provider\<close>

lemma sanitize_groups_options:
  "g \<in> set (sanitize_groups i gs) \<Longrightarrow> \<exists>os. g_options g = Some os \<and> os \<noteq> []"
  by (induction gs arbitrary: i) (auto simp: Let_def split: if_splits)

lemma sanitize_groups_kept:
  "map g_options (sanitize_groups i gs) =
     map g_options (filter (\<lambda>g. get_or (g_options g) [] \<noteq> []) gs)"
  by (induction gs arbitrary: i) (auto simp: Let_def get_or_def split: option.splits)

lemma default_groups_options:
  "g \<in> set default_groups \<Longrightarrow> \<exists>os. g_options g = Some os \<and> os \<noteq> []"
  by (auto simp: default_groups_def)

text \<open>
  Claim C6. For every backend outcome, an exception or any list of group dicts,
  \<open>get_menu_data\<close> returns a dict whose \<open>groups\<close> is a non-empty list in which every group
  has a non-empty option list. The groups are those of the input (the hardcoded fallback after
  an exception) that have a non-empty option list, in their order and with their options; when
  none is left, the result is the single default group with its single option.
\<close>

theorem get_menu_data_nonempty:
  "\<exists>groups.
     md_groups (get_menu_data backend) = Some groups \<and>
     groups \<noteq> [] \<and>
     (\<forall>g \<in> set groups. \<exists>os. g_options g = Some os \<and> os \<noteq> []) \<and>
     (let source = (case backend of Inl exc \<Rightarrow> fallback_groups | Inr gs \<Rightarrow> gs);
          kept = filter (\<lambda>g. get_or (g_options g) [] \<noteq> []) source
      in if kept = [] then groups = default_groups
         else map g_options groups = map g_options kept)"
proof -
  define source where "source = (case backend of Inl exc \<Rightarrow> fallback_groups | Inr gs \<Rightarrow> gs)"
  define kept where "kept = filter (\<lambda>g. get_or (g_options g) [] \<noteq> []) source"
  define groups where
    "groups = (if sanitize_groups 0 source = [] then default_groups else sanitize_groups 0 source)"
  have res: "md_groups (get_menu_data backend) = Some groups"
    by (simp add: get_menu_data_def groups_def source_def Let_def)
  have ne: "groups \<noteq> []"
    by (simp add: groups_def default_groups_def)
  have opts: "\<forall>g \<in> set groups. \<exists>os. g_options g = Some os \<and> os \<noteq> []"
    using sanitize_groups_options default_groups_options by (auto simp: groups_def)
  have k: "map g_options (sanitize_groups 0 source) = map g_options kept"
    unfolding kept_def by (rule sanitize_groups_kept)
  have empty_iff: "sanitize_groups 0 source = [] \<longleftrightarrow> kept = []"
    using k by (metis map_is_Nil_conv)
  have shape: "if kept = [] then groups = default_groups
               else map g_options groups = map g_options kept"
    using k empty_iff by (simp add: groups_def)
  show ?thesis
    using res ne opts shape unfolding source_def kept_def Let_def by blast
qed

text \<open>
  The theorem at a stored menu whose first group has lost all its options: the second group
  alone is returned.
\<close>

theorem get_menu_data_nonempty_witness:
  "md_groups (get_menu_data (Inr
      [\<lparr>g_id = Some (ascii ''flavor''), g_key = None, g_title = Some (ascii ''Flavor''),
        g_options = Some []\<rparr>,
       \<lparr>g_id = Some (ascii ''sauce''), g_key = None, g_title = Some (ascii ''Sauce''),
        g_options = Some [Label (ascii ''Honey'')]\<rparr>])) =
   Some [\<lparr>g_id = Some (ascii ''sauce''), g_key = Some (ascii ''sauce''),
          g_title = Some (ascii ''Sauce''), g_options = Some [Label (ascii ''Honey'')]\<rparr>]"
proof -
  let ?backend = "Inr
      [\<lparr>g_id = Some (ascii ''flavor''), g_key = None, g_title = Some (ascii ''Flavor''),
        g_options = Some []\<rparr>,
       \<lparr>g_id = Some (ascii ''sauce''), g_key = None, g_title = Some (ascii ''Sauce''),
        g_options = Some [Label (ascii ''Honey'')]\<rparr>] :: py_error + menu_group list"
  from get_menu_data_nonempty [of ?backend]
  obtain groups where "md_groups (get_menu_data ?backend) = Some groups" "groups \<noteq> []"
    by blast
  then show ?thesis
    by (simp add: get_menu_data_def get_or_def str_or_def Let_def)
qed

section \<open>Properties of the menu keyboard\<close>

lemma map_py_enumerate: "map (\<lambda>p. f (snd p)) (py_enumerate k xs) = map f xs"
  by (induction xs arbitrary: k) auto

lemma build_menu_keyboard_texts:
  "map (map b_text) (build_menu_keyboard grp index) =
     map (\<lambda>option. [option]) (get_or (g_options grp) []) @ [[b_text cancel_button]]"
  using map_py_enumerate [of "\<lambda>option. [option]" 0 "get_or (g_options grp) []"]
  by (simp add: build_menu_keyboard_def case_prod_unfold comp_def)

text \<open>
  Claim C10. The keyboard of a menu group has one button per option, labelled with the option
  value itself, followed by the cancel button. For a priced option (a dict with name and
  price) the label is that dict, not its name string.
\<close>

theorem build_menu_keyboard_labels:
  "map (map b_text) (build_menu_keyboard grp index) =
     map (\<lambda>option. [option]) (get_or (g_options grp) [])
     @ [[Label ([10060] @ ascii '' Cancel'')]] \<and>
   (\<forall>i < length (get_or (g_options grp) []).
      map b_text (build_menu_keyboard grp index ! i) = [get_or (g_options grp) [] ! i] \<and>
      (\<forall>name price. get_or (g_options grp) [] ! i = Priced name price \<longrightarrow>
         map b_text (build_menu_keyboard grp index ! i) \<noteq> [Label (get_or name [])]))"
proof -
  have all: "map (map b_text) (build_menu_keyboard grp index) =
     map (\<lambda>option. [option]) (get_or (g_options grp) [])
     @ [[Label ([10060] @ ascii '' Cancel'')]]"
    using build_menu_keyboard_texts [of grp index] by (simp add: cancel_button_def)
  have each: "map b_text (build_menu_keyboard grp index ! i) = [get_or (g_options grp) [] ! i]"
    if "i < length (get_or (g_options grp) [])" for i
  proof -
    have "length (map (map b_text) (build_menu_keyboard grp index)) =
            Suc (length (get_or (g_options grp) []))"
      unfolding all by simp
    then have "i < length (build_menu_keyboard grp index)"
      using that by simp
    then have "map b_text (build_menu_keyboard grp index ! i) =
                 map (map b_text) (build_menu_keyboard grp index) ! i"
      by simp
    also have "\<dots> = [get_or (g_options grp) [] ! i]"
      using that unfolding all by (simp add: nth_append)
    finally show ?thesis .
  qed
  show ?thesis
    using all each by simp
qed

text \<open>The theorem at the first group of the scenario menu, whose options are priced.\<close>

theorem build_menu_keyboard_labels_witness:
  "map (map b_text) (build_menu_keyboard (hd scenario_menu) 0) =
     [[Priced (Some (ascii ''Classic'')) (Some 8)], [Priced (Some (ascii ''Protein'')) (Some 9)],
      [Label ([10060] @ ascii '' Cancel'')]] \<and>
   map b_text (build_menu_keyboard (hd scenario_menu) 0 ! 1) \<noteq> [Label (ascii ''Protein'')]"
proof -
  have o: "get_or (g_options (hd scenario_menu)) [] =
             [Priced (Some (ascii ''Classic'')) (Some 8), Priced (Some (ascii ''Protein'')) (Some 9)]"
    by (simp add: scenario_menu_def get_or_def)
  show ?thesis
    using build_menu_keyboard_labels [of "hd scenario_menu" 0] unfolding o
    by (simp add: get_or_def)
qed

section \<open>Evaluating \<open>str\<close> on numerals\<close>

lemma py_str_nat_numeral:
  "py_str_nat (numeral k) =
     (if (numeral k :: nat) < 10 then [48 + numeral k]
      else py_str_nat (numeral k div 10) @ [48 + numeral k mod 10])"
  by (rule py_str_nat.simps)

lemma py_str_nat_0_1: "py_str_nat 0 = [48]" "py_str_nat 1 = [49]" "py_str_nat (Suc 0) = [49]"
  by (simp_all add: py_str_nat.simps)

lemmas py_str_nat_eval = py_str_nat_numeral py_str_nat_0_1

section \<open>Control keywords in the registration states\<close>






section \<open>Cancellation\<close>





section \<open>Order start without delivery sessions\<close>

lemma scenario_no_sessions: "load_active_delivery_sessions scenario_env = Inr []"
  by (simp add: load_active_delivery_sessions_def scenario_env_def get_active_deliveries_def)

text \<open>
  Claim C4 as stated fails: when no delivery session is active, the context that
  \<open>start_order\<close> leaves behind is not empty.
\<close>

theorem start_order_no_sessions_counterexample:
  "load_active_delivery_sessions scenario_env = Inr [] \<and>
   fst (snd (start_order scenario_env empty_user_data)) \<noteq> empty_user_data"
  using scenario_no_sessions
  by (simp add: start_order_def cache_menu_data_def clear_def Let_def empty_user_data_def)

text \<open>
  Claim C4, amended. When no delivery session is active, \<open>start_order\<close> ends the
  conversation with the apology as its only message. Nothing of an earlier conversation is
  retained: whatever the context held, it now holds exactly the freshly cached menu
  (\<open>menu_groups\<close>, \<open>menu_pricing\<close>) and the order type \<open>delivery\<close>.
\<close>

theorem start_order_no_sessions:
  "load_active_delivery_sessions e = Inr [] \<Longrightarrow>
   start_order e ctx =
     (Return END,
      empty_user_data\<lparr>ud_menu_groups := md_groups (get_menu_data (menu_backend e)),
                       ud_menu_pricing := Some [],
                       ud_order_type := Some (ascii ''delivery'')\<rparr>,
      [ReplyText no_active_sessions_text get_main_keyboard])"
  by (simp add: start_order_def cache_menu_data_def clear_def Let_def get_menu_data_def
      get_or_def)

text \<open>The theorem in the scenario environment, from a context that holds a name.\<close>

theorem start_order_no_sessions_witness:
  "load_active_delivery_sessions scenario_env = Inr [] \<and>
   start_order scenario_env (empty_user_data\<lparr>ud_name := Some (ascii ''Bo'')\<rparr>) =
     (Return END,
      empty_user_data\<lparr>ud_menu_groups := md_groups (get_menu_data (menu_backend scenario_env)),
                       ud_menu_pricing := Some [],
                       ud_order_type := Some (ascii ''delivery'')\<rparr>,
      [ReplyText no_active_sessions_text get_main_keyboard])"
  using scenario_no_sessions
    start_order_no_sessions [OF scenario_no_sessions,
      of "empty_user_data\<lparr>ud_name := Some (ascii ''Bo'')\<rparr>"]
  by simp

section \<open>Order identifiers\<close>

text \<open>
  Claim C9 fails on the code: the order id is the clock reading cut to the second, so two
  confirmations at different instants of the same second, here by two customers, get the
  same id.
\<close>

theorem order_id_collision:
  "now scenario_env \<noteq> now (scenario_env\<lparr>now := (now scenario_env)\<lparr>dt_microsecond := 700000\<rparr>\<rparr>) \<and>
   ud_order_id (fst (snd (confirm_order scenario_env empty_user_data (ascii ''confirm'')))) =
     Some (ascii ''20250101120000'') \<and>
   ud_order_id (fst (snd (confirm_order
       (scenario_env\<lparr>now := (now scenario_env)\<lparr>dt_microsecond := 700000\<rparr>\<rparr>)
       (empty_user_data\<lparr>ud_name := Some (ascii ''Bo'')\<rparr>) (ascii ''confirm'')))) =
     Some (ascii ''20250101120000'')"
  by (simp add: confirm_order_def generate_delivery_id_def scenario_env_def Let_def zfill_def
      py_str_nat_eval)

section \<open>Quantity selection\<close>

lemma ud_cart_cache [simp]: "ud_cart (snd (cache_menu_data b ctx)) = ud_cart ctx"
  by (simp add: cache_menu_data_def Let_def)

lemma ud_cart_get_menu_groups [simp]: "ud_cart (snd (get_menu_groups b ctx)) = ud_cart ctx"
  by (simp add: get_menu_groups_def cache_menu_data_def Let_def split: option.splits list.splits)

lemma ud_cart_accumulate [simp]: "ud_cart (accumulate_menu_selections sd b ctx) = ud_cart ctx"
proof -
  obtain groups ctx1 where g: "get_menu_groups b ctx = (groups, ctx1)"
    by (cases "get_menu_groups b ctx")
  then have "ud_cart ctx1 = ud_cart ctx"
    using ud_cart_get_menu_groups [of b ctx] by simp
  then show ?thesis
    by (simp add: accumulate_menu_selections_def g Let_def split: list.splits)
qed













section \<open>Menu traversal: callback data round trip\<close>










section \<open>Menu traversal: one button press\<close>






section \<open>Menu traversal: all groups\<close>



section \<open>Menu traversal: folding the selections\<close>



lemma py_enumerate_map:
  "map (\<lambda>(i, g). f i g) (py_enumerate k gs) = map (\<lambda>p. f (fst p) (snd p)) (py_enumerate k gs)"
  by (simp add: case_prod_unfold)







section \<open>Payment intake: the order write fails\<close>











end
